theory Spec2Isabelle
  imports Complex_Main
begin

section \<open>Surface creation in \<^verbatim>\<open>video_core/vulkan_common/vulkan_surface.cpp\<close>\<close>

text \<open>
  The file holds two functions: the helper \<^verbatim>\<open>MetalLayer\<close> (Apple builds only), which
  turns a view handle into a compositor layer by Objective-C messaging, and
  \<^verbatim>\<open>Vulkan::CreateSurface\<close>, which picks the surface-creation entry point that matches
  the window's type, resolves it from the instance and calls it.

  Both functions talk to the outside only through foreign calls. The embedding makes
  those calls explicit: every function returns its value together with the list of
  foreign calls and log lines it issued, in program order, and the Objective-C object
  state it leaves behind.
\<close>

subsection \<open>Handles\<close>

text \<open>
  Every handle of the source (\<^verbatim>\<open>void*\<close>, \<^verbatim>\<open>id\<close>, \<^verbatim>\<open>Class\<close>, \<^verbatim>\<open>HWND\<close>, \<^verbatim>\<open>Display*\<close>,
  the X11 \<^verbatim>\<open>Window\<close> integer, \<^verbatim>\<open>VkSurfaceKHR\<close>) is an address-sized number; the casts
  between them keep the number. The null handle is 0.
\<close>

type_synonym ptr = nat

abbreviation nullptr :: ptr where
  "nullptr \<equiv> 0"

subsection \<open>The window descriptor\<close>

text \<open>
  Modelled from the spec: the enumeration \<^verbatim>\<open>Core::Frontend::WindowSystemType\<close> and the
  structure returned by \<^verbatim>\<open>EmuWindow::GetWindowInfo\<close> are declared in
  \<^verbatim>\<open>core/frontend/emu_window.h\<close>. The source names the four enumerators
  \<^verbatim>\<open>Windows\<close>, \<^verbatim>\<open>MacOs\<close>, \<^verbatim>\<open>X11\<close>, \<^verbatim>\<open>Wayland\<close> and the three fields it reads; the
  fifth enumerator is the spec's \<^verbatim>\<open>Unsupported\<close>.
\<close>

datatype WindowSystemType = Unsupported | Windows | MacOs | X11 | Wayland

record WindowInfo =
  type :: WindowSystemType
  display_connection :: ptr
  render_surface :: ptr

subsection \<open>The build target\<close>

text \<open>
  The source is compiled once per target; the preprocessor tests \<^verbatim>\<open>_WIN32\<close> and
  \<^verbatim>\<open>__APPLE__\<close> decide which blocks exist. No target defines both.
\<close>

datatype Target = TargetWin32 | TargetApple | TargetOther

definition def_WIN32 :: "Target \<Rightarrow> bool" where
  "def_WIN32 t = (t = TargetWin32)"

definition def_APPLE :: "Target \<Rightarrow> bool" where
  "def_APPLE t = (t = TargetApple)"




subsection \<open>The Vulkan interface\<close>

text \<open>
  The Vulkan headers give the structure tags, the result codes and the four
  create-info structures. A create-info value lists its members in declaration order,
  which is the order of the source's aggregate initialisers.
\<close>

datatype VkStructureType =
    VK_STRUCTURE_TYPE_WIN32_SURFACE_CREATE_INFO_KHR
  | VK_STRUCTURE_TYPE_METAL_SURFACE_CREATE_INFO_EXT
  | VK_STRUCTURE_TYPE_XLIB_SURFACE_CREATE_INFO_KHR
  | VK_STRUCTURE_TYPE_WAYLAND_SURFACE_CREATE_INFO_KHR

type_synonym VkResult = int

definition VK_SUCCESS :: VkResult where
  "VK_SUCCESS = 0"

definition VK_ERROR_INITIALIZATION_FAILED :: VkResult where
  "VK_ERROR_INITIALIZATION_FAILED = - 3"

datatype CreateInfo =
    VkWin32SurfaceCreateInfoKHR
      (sType: VkStructureType) (pNext: ptr) (flags: nat) (hinstance: ptr) (hwnd: ptr)
  | VkMetalSurfaceCreateInfoEXT
      (sType: VkStructureType) (pNext: ptr) (flags: nat) (pLayer: ptr)
  | VkXlibSurfaceCreateInfoKHR
      (sType: VkStructureType) (pNext: ptr) (flags: nat) (dpy: ptr) (window: ptr)
  | VkWaylandSurfaceCreateInfoKHR
      (sType: VkStructureType) (pNext: ptr) (flags: nat) (display: ptr) (surface: ptr)

text \<open>
  A resolved entry point takes the instance handle and the create-info and yields the
  status together with the handle it leaves in \<^verbatim>\<open>*pSurface\<close>. The allocator argument is
  the null pointer at every call site. A null function pointer is \<open>None\<close>.
\<close>

type_synonym PFN_vkCreateSurface = "ptr \<Rightarrow> CreateInfo \<Rightarrow> VkResult \<times> ptr"

type_synonym InstanceDispatch = "ptr \<Rightarrow> string \<Rightarrow> PFN_vkCreateSurface option"

text \<open>
  Modelled from the spec: the wrapper classes \<^verbatim>\<open>vk::Instance\<close>, \<^verbatim>\<open>vk::SurfaceKHR\<close> and
  \<^verbatim>\<open>vk::Exception\<close> are declared in \<^verbatim>\<open>video_core/vulkan_common/vulkan_wrapper.h\<close>. An
  instance is its raw handle (\<^verbatim>\<open>*instance\<close>) and its function table, whose
  \<^verbatim>\<open>vkGetInstanceProcAddr\<close> resolves a name; an owned surface binds the raw handle to
  the instance and the table it came from; the exception carries a result code.
\<close>

record Instance =
  handle :: ptr
  Dispatch :: InstanceDispatch

record SurfaceKHR =
  surface_handle :: ptr
  surface_owner :: ptr
  surface_dld :: InstanceDispatch

datatype vk_Exception = Exception VkResult

abbreviation SurfaceInitializationFailed :: vk_Exception where
  "SurfaceInitializationFailed \<equiv> Exception VK_ERROR_INITIALIZATION_FAILED"

subsection \<open>Foreign calls and log lines\<close>

datatype event =
    LOG_ERROR string
  | objc_msgSend ptr string
  | vkGetInstanceProcAddr ptr string
  | NativeCall string ptr CreateInfo

text \<open>The entry-point names resolved, and the native creation calls made, in a trace.\<close>

primrec resolved :: "event list \<Rightarrow> string list" where
  "resolved [] = []"
| "resolved (e # es) =
     (case e of vkGetInstanceProcAddr h n \<Rightarrow> n # resolved es | _ \<Rightarrow> resolved es)"

primrec native_calls :: "event list \<Rightarrow> (string \<times> ptr \<times> CreateInfo) list" where
  "native_calls [] = []"
| "native_calls (e # es) =
     (case e of NativeCall n h ci \<Rightarrow> (n, h, ci) # native_calls es | _ \<Rightarrow> native_calls es)"

text \<open>The selectors sent, in a trace.\<close>

primrec selectors :: "event list \<Rightarrow> string list" where
  "selectors [] = []"
| "selectors (e # es) =
     (case e of objc_msgSend r s \<Rightarrow> s # selectors es | _ \<Rightarrow> selectors es)"

subsection \<open>The Objective-C object state\<close>

text \<open>
  What the messages of \<^verbatim>\<open>MetalLayer\<close> read and write: the class table behind
  \<^verbatim>\<open>objc_getClass\<close>, the results of the successive \<^verbatim>\<open>[CAMetalLayer layer]\<close>
  instantiations still to come (nil, or none left, is a failed instantiation), the
  layer-backing state of each view, the main screen, each screen's backing scale
  factor and each layer's contents scale. A \<^verbatim>\<open>double\<close> is only copied, never computed
  with, so it is a real number.
\<close>

record NSView =
  wantsLayer :: bool
  view_layer :: ptr

record ObjcRuntime =
  classes :: "string \<Rightarrow> ptr"
  fresh_layers :: "ptr list"
  views :: "ptr \<Rightarrow> NSView"
  mainScreen :: ptr
  backingScaleFactor :: "ptr \<Rightarrow> real"
  contentsScale :: "ptr \<Rightarrow> real"

definition objc_getClass :: "ObjcRuntime \<Rightarrow> string \<Rightarrow> ptr" where
  "objc_getClass w name = classes w name"

text \<open>
  One function per message. A message to nil does nothing and returns nil (0 for a
  \<^verbatim>\<open>double\<close>).
\<close>

definition msgSend_layer :: "ptr \<Rightarrow> ObjcRuntime \<Rightarrow> ptr \<times> ObjcRuntime" where
  "msgSend_layer cls w =
     (if cls = nullptr then (nullptr, w)
      else case fresh_layers w of
             [] \<Rightarrow> (nullptr, w)
           | p # ps \<Rightarrow> (p, w\<lparr>fresh_layers := ps\<rparr>))"

definition msgSend_setWantsLayer :: "ptr \<Rightarrow> bool \<Rightarrow> ObjcRuntime \<Rightarrow> ObjcRuntime" where
  "msgSend_setWantsLayer view b w =
     (if view = nullptr then w
      else w\<lparr>views := (views w)(view := (views w view)\<lparr>wantsLayer := b\<rparr>)\<rparr>)"

definition msgSend_setLayer :: "ptr \<Rightarrow> ptr \<Rightarrow> ObjcRuntime \<Rightarrow> ObjcRuntime" where
  "msgSend_setLayer view l w =
     (if view = nullptr then w
      else w\<lparr>views := (views w)(view := (views w view)\<lparr>view_layer := l\<rparr>)\<rparr>)"

definition msgSend_mainScreen :: "ptr \<Rightarrow> ObjcRuntime \<Rightarrow> ptr" where
  "msgSend_mainScreen cls w = (if cls = nullptr then nullptr else mainScreen w)"

definition msgSend_backingScaleFactor :: "ptr \<Rightarrow> ObjcRuntime \<Rightarrow> real" where
  "msgSend_backingScaleFactor screen w =
     (if screen = nullptr then 0 else backingScaleFactor w screen)"

definition msgSend_setContentsScale :: "ptr \<Rightarrow> real \<Rightarrow> ObjcRuntime \<Rightarrow> ObjcRuntime" where
  "msgSend_setContentsScale l factor w =
     (if l = nullptr then w
      else w\<lparr>contentsScale := (contentsScale w)(l := factor)\<rparr>)"

subsection \<open>\<^verbatim>\<open>MetalLayer\<close>\<close>

text \<open>
  Lines 32 to 66. The result is the returned pointer, the trace and the object state.
  The assignment to the by-value parameter on line 63 has no effect outside the
  function and is left out.
\<close>

definition MetalLayer :: "ptr \<Rightarrow> ObjcRuntime \<Rightarrow> ptr \<times> event list \<times> ObjcRuntime" where
  "MetalLayer render_surface' w =
     (let view = render_surface';
          clsCAMetalLayer = objc_getClass w ''CAMetalLayer''
      in if clsCAMetalLayer = nullptr then
           (nullptr, [LOG_ERROR ''Failed to get CAMetalLayer class.''], w)
         else
           (let cls = objc_getClass w ''CAMetalLayer'';
                (layer, w1) = msgSend_layer cls w
            in if layer = nullptr then
                 (nullptr,
                  [objc_msgSend cls ''layer'', LOG_ERROR ''Failed to create Metal layer.''],
                  w1)
               else
                 (let w2 = msgSend_setWantsLayer view True w1;
                      w3 = msgSend_setLayer view layer w2;
                      clsNSScreen = objc_getClass w3 ''NSScreen'';
                      screen = msgSend_mainScreen clsNSScreen w3;
                      factor = msgSend_backingScaleFactor screen w3;
                      w4 = msgSend_setContentsScale layer factor w3
                  in (layer,
                      [objc_msgSend cls ''layer'',
                       objc_msgSend view ''setWantsLayer:'',
                       objc_msgSend view ''setLayer:'',
                       objc_msgSend clsNSScreen ''mainScreen'',
                       objc_msgSend screen ''backingScaleFactor'',
                       objc_msgSend layer ''setContentsScale:''],
                      w4))))"

subsection \<open>\<^verbatim>\<open>CreateSurface\<close>\<close>

text \<open>
  A computation runs on the object state and either throws or returns, with its trace.
  \<open>bind\<close> is the sequencing of statements: an exception ends the function.
\<close>

type_synonym 'a comp = "ObjcRuntime \<Rightarrow> (vk_Exception + 'a) \<times> event list \<times> ObjcRuntime"

definition bind :: "'a comp \<Rightarrow> ('a \<Rightarrow> 'b comp) \<Rightarrow> 'b comp" where
  "bind m f w =
     (case m w of
        (Inl e, tr, w') \<Rightarrow> (Inl e, tr, w')
      | (Inr a, tr, w') \<Rightarrow> (case f a w' of (r, tr', w'') \<Rightarrow> (r, tr @ tr', w'')))"

text \<open>
  The four blocks end alike (lines 84--90, 98--104, 113--119, 126--133): resolve the
  entry point by name; if the pointer is null, or the call through it does not return
  \<^verbatim>\<open>VK_SUCCESS\<close>, log the block's message and throw. The \<^verbatim>\<open>||\<close> does not call through
  a null pointer. Otherwise \<^verbatim>\<open>unsafe_surface\<close> holds what the call stored.
\<close>

definition resolve_and_create ::
    "Instance \<Rightarrow> string \<Rightarrow> CreateInfo \<Rightarrow> string \<Rightarrow> ptr comp" where
  "resolve_and_create instance name ci msg w =
     (case Dispatch instance (handle instance) name of
        None \<Rightarrow>
          (Inl (Exception VK_ERROR_INITIALIZATION_FAILED),
           [vkGetInstanceProcAddr (handle instance) name, LOG_ERROR msg], w)
      | Some pfn \<Rightarrow>
          (case pfn (handle instance) ci of
             (result, unsafe_surface) \<Rightarrow>
               if result \<noteq> VK_SUCCESS then
                 (Inl (Exception VK_ERROR_INITIALIZATION_FAILED),
                  [vkGetInstanceProcAddr (handle instance) name,
                   NativeCall name (handle instance) ci, LOG_ERROR msg], w)
               else
                 (Inr unsafe_surface,
                  [vkGetInstanceProcAddr (handle instance) name,
                   NativeCall name (handle instance) ci], w)))"

text \<open>Lines 79 to 92.\<close>

definition Win32_block :: "Target \<Rightarrow> Instance \<Rightarrow> WindowInfo \<Rightarrow> ptr \<Rightarrow> ptr comp" where
  "Win32_block t instance window_info unsafe_surface w =
     (if def_WIN32 t \<and> type window_info = Windows then
        (let hWnd = render_surface window_info;
             win32_ci = VkWin32SurfaceCreateInfoKHR
                          VK_STRUCTURE_TYPE_WIN32_SURFACE_CREATE_INFO_KHR nullptr 0 nullptr hWnd
         in resolve_and_create instance ''vkCreateWin32SurfaceKHR'' win32_ci
              ''Failed to initialize Win32 surface'' w)
      else (Inr unsafe_surface, [], w))"

text \<open>Lines 93 to 106. The layer returned by \<^verbatim>\<open>MetalLayer\<close> goes into the create-info as it is.\<close>

definition Metal_block :: "Target \<Rightarrow> Instance \<Rightarrow> WindowInfo \<Rightarrow> ptr \<Rightarrow> ptr comp" where
  "Metal_block t instance window_info unsafe_surface w =
     (if def_APPLE t \<and> type window_info = MacOs then
        (case MetalLayer (render_surface window_info) w of
           (layer, tr, w') \<Rightarrow>
             (let metal_ci = VkMetalSurfaceCreateInfoEXT
                               VK_STRUCTURE_TYPE_METAL_SURFACE_CREATE_INFO_EXT nullptr 0 layer
              in case resolve_and_create instance ''vkCreateMetalSurfaceEXT'' metal_ci
                        ''Failed to initialize metal surface'' w' of
                   (r, tr', w'') \<Rightarrow> (r, tr @ tr', w'')))
      else (Inr unsafe_surface, [], w))"

text \<open>Lines 107 to 120.\<close>

definition Xlib_block :: "Target \<Rightarrow> Instance \<Rightarrow> WindowInfo \<Rightarrow> ptr \<Rightarrow> ptr comp" where
  "Xlib_block t instance window_info unsafe_surface w =
     (if \<not> def_WIN32 t \<and> \<not> def_APPLE t \<and> type window_info = X11 then
        (let xlib_ci = VkXlibSurfaceCreateInfoKHR
                         VK_STRUCTURE_TYPE_XLIB_SURFACE_CREATE_INFO_KHR nullptr 0
                         (display_connection window_info) (render_surface window_info)
         in resolve_and_create instance ''vkCreateXlibSurfaceKHR'' xlib_ci
              ''Failed to initialize Xlib surface'' w)
      else (Inr unsafe_surface, [], w))"

text \<open>Lines 121 to 135.\<close>

definition Wayland_block :: "Target \<Rightarrow> Instance \<Rightarrow> WindowInfo \<Rightarrow> ptr \<Rightarrow> ptr comp" where
  "Wayland_block t instance window_info unsafe_surface w =
     (if \<not> def_WIN32 t \<and> \<not> def_APPLE t \<and> type window_info = Wayland then
        (let wayland_ci = VkWaylandSurfaceCreateInfoKHR
                            VK_STRUCTURE_TYPE_WAYLAND_SURFACE_CREATE_INFO_KHR nullptr 0
                            (display_connection window_info) (render_surface window_info)
         in resolve_and_create instance ''vkCreateWaylandSurfaceKHR'' wayland_ci
              ''Failed to initialize Wayland surface'' w)
      else (Inr unsafe_surface, [], w))"

text \<open>
  Lines 77 to 135: \<^verbatim>\<open>unsafe_surface\<close> starts null and passes through the four blocks in
  source order. The result is the raw handle as line 136 finds it.
\<close>

definition platform_blocks :: "Target \<Rightarrow> Instance \<Rightarrow> WindowInfo \<Rightarrow> ptr comp" where
  "platform_blocks t instance window_info =
     bind (Win32_block t instance window_info nullptr) (\<lambda>s1.
     bind (Metal_block t instance window_info s1) (\<lambda>s2.
     bind (Xlib_block t instance window_info s2) (\<lambda>s3.
     Wayland_block t instance window_info s3)))"

text \<open>Lines 73 to 141.\<close>

definition CreateSurface :: "Target \<Rightarrow> Instance \<Rightarrow> WindowInfo \<Rightarrow> SurfaceKHR comp" where
  "CreateSurface t instance window_info =
     bind (platform_blocks t instance window_info) (\<lambda>unsafe_surface w.
       if unsafe_surface = nullptr then
         (Inl (Exception VK_ERROR_INITIALIZATION_FAILED),
          [LOG_ERROR ''Presentation not supported on this platform''], w)
       else
         (Inr \<lparr>surface_handle = unsafe_surface, surface_owner = handle instance,
               surface_dld = Dispatch instance\<rparr>, [], w))"

subsection \<open>Which window types have a block on which target\<close>

definition compiled :: "Target \<Rightarrow> WindowSystemType \<Rightarrow> bool" where
  "compiled t ty =
     (case ty of
        Windows \<Rightarrow> def_WIN32 t
      | MacOs \<Rightarrow> def_APPLE t
      | X11 \<Rightarrow> \<not> def_WIN32 t \<and> \<not> def_APPLE t
      | Wayland \<Rightarrow> \<not> def_WIN32 t \<and> \<not> def_APPLE t
      | Unsupported \<Rightarrow> False)"

definition entry_point :: "WindowSystemType \<Rightarrow> string" where
  "entry_point ty =
     (case ty of
        Windows \<Rightarrow> ''vkCreateWin32SurfaceKHR''
      | MacOs \<Rightarrow> ''vkCreateMetalSurfaceEXT''
      | X11 \<Rightarrow> ''vkCreateXlibSurfaceKHR''
      | Wayland \<Rightarrow> ''vkCreateWaylandSurfaceKHR''
      | Unsupported \<Rightarrow> [])"

subsection \<open>Reading a run\<close>

text \<open>The three components of what a function of the embedding returns.\<close>

definition result_of :: "'r \<times> event list \<times> ObjcRuntime \<Rightarrow> 'r" where
  "result_of x = fst x"

definition trace_of :: "'r \<times> event list \<times> ObjcRuntime \<Rightarrow> event list" where
  "trace_of x = fst (snd x)"

definition state_of :: "'r \<times> event list \<times> ObjcRuntime \<Rightarrow> ObjcRuntime" where
  "state_of x = snd (snd x)"

subsection \<open>Concrete instances, windows and object states\<close>

text \<open>
  An instance whose table resolves every name to a call that succeeds with handle 7,
  one whose calls are all rejected, and one that resolves nothing; a window of a given
  type; and an object state in which both classes exist, one layer (20) can be
  instantiated and the main screen (30) has backing scale factor 2, with three
  variants: no class is registered, the instantiation returns nil, there is no main
  screen.
\<close>

definition example_instance :: Instance where
  "example_instance = \<lparr>handle = 1, Dispatch = (\<lambda>h name. Some (\<lambda>h ci. (VK_SUCCESS, 7)))\<rparr>"

definition rejecting_instance :: Instance where
  "rejecting_instance =
     \<lparr>handle = 1, Dispatch = (\<lambda>h name. Some (\<lambda>h ci. (VK_ERROR_INITIALIZATION_FAILED, nullptr)))\<rparr>"

definition bare_instance :: Instance where
  "bare_instance = \<lparr>handle = 1, Dispatch = (\<lambda>h name. None)\<rparr>"

definition example_window :: "WindowSystemType \<Rightarrow> WindowInfo" where
  "example_window ty = \<lparr>type = ty, display_connection = 40, render_surface = 50\<rparr>"

definition example_runtime :: ObjcRuntime where
  "example_runtime =
     \<lparr>classes = (\<lambda>name. if name = ''CAMetalLayer'' then 10
                        else if name = ''NSScreen'' then 11 else nullptr),
      fresh_layers = [20],
      views = (\<lambda>v. \<lparr>wantsLayer = False, view_layer = nullptr\<rparr>),
      mainScreen = 30,
      backingScaleFactor = (\<lambda>s. 2),
      contentsScale = (\<lambda>l. 1)\<rparr>"

definition no_class_runtime :: ObjcRuntime where
  "no_class_runtime = example_runtime\<lparr>classes := (\<lambda>name. nullptr)\<rparr>"

definition no_layer_runtime :: ObjcRuntime where
  "no_layer_runtime = example_runtime\<lparr>fresh_layers := [nullptr]\<rparr>"

definition no_screen_runtime :: ObjcRuntime where
  "no_screen_runtime = example_runtime\<lparr>mainScreen := nullptr\<rparr>"

section \<open>Basic facts\<close>

lemma platform_blocks_not_compiled:
  "\<not> compiled t (type window_info) \<Longrightarrow>
     platform_blocks t instance window_info w = (Inr nullptr, [], w)"
  by (cases "type window_info")
     (auto simp: compiled_def platform_blocks_def bind_def Win32_block_def Metal_block_def
        Xlib_block_def Wayland_block_def)

lemma resolved_append: "resolved (xs @ ys) = resolved xs @ resolved ys"
  by (induction xs) (simp_all split: event.splits)

lemma native_calls_append: "native_calls (xs @ ys) = native_calls xs @ native_calls ys"
  by (induction xs) (simp_all split: event.splits)

lemma platform_blocks_Windows:
  "def_WIN32 t \<Longrightarrow> type window_info = Windows \<Longrightarrow>
     platform_blocks t instance window_info w =
       resolve_and_create instance ''vkCreateWin32SurfaceKHR''
         (VkWin32SurfaceCreateInfoKHR VK_STRUCTURE_TYPE_WIN32_SURFACE_CREATE_INFO_KHR
            nullptr 0 nullptr (render_surface window_info))
         ''Failed to initialize Win32 surface'' w"
  by (auto simp: platform_blocks_def bind_def Win32_block_def Metal_block_def
        Xlib_block_def Wayland_block_def def_WIN32_def def_APPLE_def
        split: prod.splits sum.splits)

lemma platform_blocks_MacOs:
  "def_APPLE t \<Longrightarrow> type window_info = MacOs \<Longrightarrow>
     platform_blocks t instance window_info w =
       (case MetalLayer (render_surface window_info) w of
          (layer, tr, w') \<Rightarrow>
            (case resolve_and_create instance ''vkCreateMetalSurfaceEXT''
                    (VkMetalSurfaceCreateInfoEXT VK_STRUCTURE_TYPE_METAL_SURFACE_CREATE_INFO_EXT
                       nullptr 0 layer)
                    ''Failed to initialize metal surface'' w' of
               (r, tr', w'') \<Rightarrow> (r, tr @ tr', w'')))"
  by (auto simp: platform_blocks_def bind_def Win32_block_def Metal_block_def
        Xlib_block_def Wayland_block_def def_WIN32_def def_APPLE_def
        split: prod.splits sum.splits)

lemma platform_blocks_X11:
  "\<not> def_WIN32 t \<Longrightarrow> \<not> def_APPLE t \<Longrightarrow> type window_info = X11 \<Longrightarrow>
     platform_blocks t instance window_info w =
       resolve_and_create instance ''vkCreateXlibSurfaceKHR''
         (VkXlibSurfaceCreateInfoKHR VK_STRUCTURE_TYPE_XLIB_SURFACE_CREATE_INFO_KHR
            nullptr 0 (display_connection window_info) (render_surface window_info))
         ''Failed to initialize Xlib surface'' w"
  by (auto simp: platform_blocks_def bind_def Win32_block_def Metal_block_def
        Xlib_block_def Wayland_block_def
        split: prod.splits sum.splits)

lemma platform_blocks_Wayland:
  "\<not> def_WIN32 t \<Longrightarrow> \<not> def_APPLE t \<Longrightarrow> type window_info = Wayland \<Longrightarrow>
     platform_blocks t instance window_info w =
       resolve_and_create instance ''vkCreateWaylandSurfaceKHR''
         (VkWaylandSurfaceCreateInfoKHR VK_STRUCTURE_TYPE_WAYLAND_SURFACE_CREATE_INFO_KHR
            nullptr 0 (display_connection window_info) (render_surface window_info))
         ''Failed to initialize Wayland surface'' w"
  by (auto simp: platform_blocks_def bind_def Win32_block_def Metal_block_def
        Xlib_block_def Wayland_block_def
        split: prod.splits sum.splits)

lemma proj_simps [simp]:
  "result_of (r, tr, w) = r" "trace_of (r, tr, w) = tr" "state_of (r, tr, w) = w"
  by (simp_all add: result_of_def trace_of_def state_of_def)

lemma case_comp:
  "(case x of (r, tr, w) \<Rightarrow> f r tr w) = f (result_of x) (trace_of x) (state_of x)"
  by (cases x) simp

lemma resolve_and_create_state [simp]:
  "state_of (resolve_and_create instance name ci msg w) = w"
  by (simp add: resolve_and_create_def split: option.splits prod.splits)

lemma resolve_and_create_resolved [simp]:
  "resolved (trace_of (resolve_and_create instance name ci msg w)) = [name]"
  by (simp add: resolve_and_create_def split: option.splits prod.splits)

lemma resolve_and_create_None:
  "Dispatch instance (handle instance) name = None \<Longrightarrow>
     resolve_and_create instance name ci msg w =
       (Inl SurfaceInitializationFailed,
        [vkGetInstanceProcAddr (handle instance) name, LOG_ERROR msg], w)"
  by (simp add: resolve_and_create_def)

lemma resolve_and_create_Some:
  "Dispatch instance (handle instance) name = Some pfn \<Longrightarrow>
     native_calls (trace_of (resolve_and_create instance name ci msg w)) =
       [(name, handle instance, ci)] \<and>
     result_of (resolve_and_create instance name ci msg w) =
       (if fst (pfn (handle instance) ci) \<noteq> VK_SUCCESS
        then Inl SurfaceInitializationFailed
        else Inr (snd (pfn (handle instance) ci)))"
  by (simp add: resolve_and_create_def split: prod.splits)

lemma MetalLayer_resolved [simp]:
  "resolved (trace_of (MetalLayer rs w)) = []"
  by (simp add: MetalLayer_def Let_def split: prod.splits)

lemma MetalLayer_native_calls [simp]:
  "native_calls (trace_of (MetalLayer rs w)) = []"
  by (simp add: MetalLayer_def Let_def split: prod.splits)

lemma platform_blocks_MacOs_proj:
  assumes "def_APPLE t" and "type window_info = MacOs"
  shows "result_of (platform_blocks t instance window_info w) =
           result_of (resolve_and_create instance ''vkCreateMetalSurfaceEXT''
             (VkMetalSurfaceCreateInfoEXT VK_STRUCTURE_TYPE_METAL_SURFACE_CREATE_INFO_EXT
                nullptr 0 (result_of (MetalLayer (render_surface window_info) w)))
             ''Failed to initialize metal surface''
             (state_of (MetalLayer (render_surface window_info) w)))"
    and "trace_of (platform_blocks t instance window_info w) =
           trace_of (MetalLayer (render_surface window_info) w) @
           trace_of (resolve_and_create instance ''vkCreateMetalSurfaceEXT''
             (VkMetalSurfaceCreateInfoEXT VK_STRUCTURE_TYPE_METAL_SURFACE_CREATE_INFO_EXT
                nullptr 0 (result_of (MetalLayer (render_surface window_info) w)))
             ''Failed to initialize metal surface''
             (state_of (MetalLayer (render_surface window_info) w)))"
    and "state_of (platform_blocks t instance window_info w) =
           state_of (MetalLayer (render_surface window_info) w)"
  using assms
  by (simp_all add: platform_blocks_MacOs case_comp)

lemma CreateSurface_proj:
  "result_of (CreateSurface t instance window_info w) =
     (case result_of (platform_blocks t instance window_info w) of
        Inl e \<Rightarrow> Inl e
      | Inr unsafe_surface \<Rightarrow>
          if unsafe_surface = nullptr then Inl SurfaceInitializationFailed
          else Inr \<lparr>surface_handle = unsafe_surface, surface_owner = handle instance,
                    surface_dld = Dispatch instance\<rparr>)"
  "resolved (trace_of (CreateSurface t instance window_info w)) =
     resolved (trace_of (platform_blocks t instance window_info w))"
  "native_calls (trace_of (CreateSurface t instance window_info w)) =
     native_calls (trace_of (platform_blocks t instance window_info w))"
  "state_of (CreateSurface t instance window_info w) =
     state_of (platform_blocks t instance window_info w)"
  by (cases "platform_blocks t instance window_info w";
      simp add: CreateSurface_def bind_def resolved_append native_calls_append
        split: sum.splits)+

lemma compiled_cases:
  "compiled t ty \<Longrightarrow>
     (def_WIN32 t \<and> ty = Windows) \<or> (def_APPLE t \<and> ty = MacOs) \<or>
     (\<not> def_WIN32 t \<and> \<not> def_APPLE t \<and> ty = X11) \<or>
     (\<not> def_WIN32 t \<and> \<not> def_APPLE t \<and> ty = Wayland)"
  by (cases ty) (simp_all add: compiled_def)

lemma platform_blocks_resolved:
  "compiled t (type window_info) \<Longrightarrow>
     resolved (trace_of (platform_blocks t instance window_info w)) =
       [entry_point (type window_info)]"
  by (drule compiled_cases)
     (auto simp: platform_blocks_Windows platform_blocks_X11 platform_blocks_Wayland
        platform_blocks_MacOs_proj resolved_append entry_point_def)

lemma platform_blocks_None:
  "compiled t (type window_info) \<Longrightarrow>
   Dispatch instance (handle instance) (entry_point (type window_info)) = None \<Longrightarrow>
     result_of (platform_blocks t instance window_info w) = Inl SurfaceInitializationFailed \<and>
     native_calls (trace_of (platform_blocks t instance window_info w)) = []"
  by (drule compiled_cases)
     (auto simp: platform_blocks_Windows platform_blocks_X11 platform_blocks_Wayland
        platform_blocks_MacOs_proj native_calls_append entry_point_def
        resolve_and_create_None)

lemma platform_blocks_Some:
  assumes "compiled t (type window_info)"
    and "Dispatch instance (handle instance) (entry_point (type window_info)) = Some pfn"
  shows "\<exists>ci. native_calls (trace_of (platform_blocks t instance window_info w)) =
              [(entry_point (type window_info), handle instance, ci)] \<and>
            result_of (platform_blocks t instance window_info w) =
              (if fst (pfn (handle instance) ci) \<noteq> VK_SUCCESS
               then Inl SurfaceInitializationFailed
               else Inr (snd (pfn (handle instance) ci)))"
proof -
  consider (win) "def_WIN32 t" "type window_info = Windows"
    | (mac) "def_APPLE t" "type window_info = MacOs"
    | (x11) "\<not> def_WIN32 t" "\<not> def_APPLE t" "type window_info = X11"
    | (wl) "\<not> def_WIN32 t" "\<not> def_APPLE t" "type window_info = Wayland"
    using compiled_cases[OF assms(1)] by blast
  then show ?thesis
  proof cases
    case win
    from assms(2) win(2)
    have "Dispatch instance (handle instance) ''vkCreateWin32SurfaceKHR'' = Some pfn"
      by (simp add: entry_point_def)
    from resolve_and_create_Some[OF this] show ?thesis
      unfolding platform_blocks_Windows[OF win] win(2) entry_point_def WindowSystemType.case
      by blast
  next
    case mac
    from assms(2) mac(2)
    have "Dispatch instance (handle instance) ''vkCreateMetalSurfaceEXT'' = Some pfn"
      by (simp add: entry_point_def)
    from resolve_and_create_Some[OF this] mac show ?thesis
      by (simp add: platform_blocks_MacOs_proj entry_point_def native_calls_append)
  next
    case x11
    from assms(2) x11(3)
    have "Dispatch instance (handle instance) ''vkCreateXlibSurfaceKHR'' = Some pfn"
      by (simp add: entry_point_def)
    from resolve_and_create_Some[OF this] show ?thesis
      unfolding platform_blocks_X11[OF x11] x11(3) entry_point_def WindowSystemType.case
      by blast
  next
    case wl
    from assms(2) wl(3)
    have "Dispatch instance (handle instance) ''vkCreateWaylandSurfaceKHR'' = Some pfn"
      by (simp add: entry_point_def)
    from resolve_and_create_Some[OF this] show ?thesis
      unfolding platform_blocks_Wayland[OF wl] wl(3) entry_point_def WindowSystemType.case
      by blast
  qed
qed

lemma resolve_and_create_native_call:
  assumes "Dispatch instance (handle instance) name = Some pfn"
  shows "native_calls (trace_of (resolve_and_create instance name ci msg w)) =
           [(name, handle instance, ci)]"
  using resolve_and_create_Some[OF assms] by simp

section \<open>The view-layer helper\<close>

text \<open>
  Instantiation only takes the next layer from the supply; it leaves the class table,
  the views, the screens and the layers' contents scales alone.
\<close>

lemma msgSend_layer_frame:
  "msgSend_layer cls w = (p, w1) \<Longrightarrow>
     classes w1 = classes w \<and> views w1 = views w \<and> mainScreen w1 = mainScreen w \<and>
     backingScaleFactor w1 = backingScaleFactor w \<and> contentsScale w1 = contentsScale w"
  by (auto simp: msgSend_layer_def split: if_splits list.splits)

lemma MetalLayer_success:
  assumes "objc_getClass w ''CAMetalLayer'' \<noteq> nullptr"
    and "msgSend_layer (objc_getClass w ''CAMetalLayer'') w = (p, w1)"
    and "p \<noteq> nullptr"
  shows "MetalLayer rs w =
     (p,
      [objc_msgSend (objc_getClass w ''CAMetalLayer'') ''layer'',
       objc_msgSend rs ''setWantsLayer:'',
       objc_msgSend rs ''setLayer:'',
       objc_msgSend (objc_getClass w ''NSScreen'') ''mainScreen'',
       objc_msgSend (msgSend_mainScreen (objc_getClass w ''NSScreen'') w) ''backingScaleFactor'',
       objc_msgSend p ''setContentsScale:''],
      msgSend_setContentsScale p
        (msgSend_backingScaleFactor (msgSend_mainScreen (objc_getClass w ''NSScreen'') w) w)
        (msgSend_setLayer rs p (msgSend_setWantsLayer rs True w1)))"
  using assms msgSend_layer_frame[OF assms(2)]
  by (simp add: MetalLayer_def Let_def objc_getClass_def msgSend_setLayer_def
        msgSend_setWantsLayer_def msgSend_mainScreen_def msgSend_backingScaleFactor_def)

text \<open>
  Claim C9. When \<^verbatim>\<open>MetalLayer\<close> fails, because the class \<^verbatim>\<open>CAMetalLayer\<close> is not
  registered or because \<^verbatim>\<open>[CAMetalLayer layer]\<close> returns nil, it returns the null pointer
  and every view keeps its \<^verbatim>\<open>wantsLayer\<close> flag and its layer: the only message that can
  have been sent by then is \<^verbatim>\<open>layer\<close>, to the class; neither \<^verbatim>\<open>setWantsLayer:\<close> nor
  \<^verbatim>\<open>setLayer:\<close> has been sent.
\<close>

theorem MetalLayer_failure_leaves_view:
  assumes "objc_getClass w ''CAMetalLayer'' = nullptr \<or>
           fst (msgSend_layer (objc_getClass w ''CAMetalLayer'') w) = nullptr"
  shows "result_of (MetalLayer rs w) = nullptr \<and>
         views (state_of (MetalLayer rs w)) = views w \<and>
         (selectors (trace_of (MetalLayer rs w)) = [] \<or>
          selectors (trace_of (MetalLayer rs w)) = [''layer''])"
  using assms
  by (auto simp: MetalLayer_def Let_def dest: msgSend_layer_frame split: prod.splits)

theorem MetalLayer_failure_leaves_view_witness:
  "objc_getClass no_class_runtime ''CAMetalLayer'' = nullptr \<and>
   MetalLayer 50 no_class_runtime =
     (nullptr, [LOG_ERROR ''Failed to get CAMetalLayer class.''], no_class_runtime) \<and>
   objc_getClass no_layer_runtime ''CAMetalLayer'' = 10 \<and>
   fst (msgSend_layer (objc_getClass no_layer_runtime ''CAMetalLayer'') no_layer_runtime) =
     nullptr \<and>
   result_of (MetalLayer 50 no_layer_runtime) = nullptr \<and>
   views (state_of (MetalLayer 50 no_layer_runtime)) = views no_layer_runtime \<and>
   selectors (trace_of (MetalLayer 50 no_layer_runtime)) = [''layer'']"
  using MetalLayer_failure_leaves_view [of no_class_runtime 50]
        MetalLayer_failure_leaves_view [of no_layer_runtime 50]
  by (simp add: no_class_runtime_def no_layer_runtime_def example_runtime_def objc_getClass_def
        msgSend_layer_def MetalLayer_def Let_def)

text \<open>
  Claim C10. Once the class is found and the instantiation has returned a non-nil
  layer, \<^verbatim>\<open>MetalLayer\<close> returns that layer, whatever the screen lookup gives: nothing
  after line 46 can fail. When the class \<^verbatim>\<open>NSScreen\<close> or the main screen is nil, the
  scale query is a message to nil, and the layer's contents scale is set to 0.
\<close>

theorem MetalLayer_returns_layer:
  assumes "objc_getClass w ''CAMetalLayer'' \<noteq> nullptr"
    and "msgSend_layer (objc_getClass w ''CAMetalLayer'') w = (p, w1)"
    and "p \<noteq> nullptr"
  shows "result_of (MetalLayer rs w) = p \<and>
         (objc_getClass w ''NSScreen'' = nullptr \<or> mainScreen w = nullptr \<longrightarrow>
            contentsScale (state_of (MetalLayer rs w)) p = 0)"
  using assms
  by (auto simp: MetalLayer_success[OF assms] msgSend_setContentsScale_def
        msgSend_backingScaleFactor_def msgSend_mainScreen_def)

theorem MetalLayer_returns_layer_witness:
  "objc_getClass no_screen_runtime ''CAMetalLayer'' \<noteq> nullptr \<and>
   msgSend_layer (objc_getClass no_screen_runtime ''CAMetalLayer'') no_screen_runtime =
     (20, no_screen_runtime\<lparr>fresh_layers := []\<rparr>) \<and>
   mainScreen no_screen_runtime = nullptr \<and>
   contentsScale no_screen_runtime 20 = 1 \<and>
   result_of (MetalLayer 50 no_screen_runtime) = 20 \<and>
   contentsScale (state_of (MetalLayer 50 no_screen_runtime)) 20 = 0"
  using MetalLayer_returns_layer
          [of no_screen_runtime 20 "no_screen_runtime\<lparr>fresh_layers := []\<rparr>" 50]
  by (simp add: no_screen_runtime_def example_runtime_def objc_getClass_def msgSend_layer_def)

text \<open>
  Claim C7. When the layer is created and the main screen exists, the layer that
  \<^verbatim>\<open>MetalLayer\<close> returns has, in the state the function leaves, the main screen's
  backing scale factor as its contents scale; \<^verbatim>\<open>setContentsScale:\<close> is the last message
  sent before the return. In particular a backing scale factor of 2.0 gives a contents
  scale of 2.0.
\<close>

theorem MetalLayer_contents_scale:
  assumes "objc_getClass w ''CAMetalLayer'' \<noteq> nullptr"
    and "msgSend_layer (objc_getClass w ''CAMetalLayer'') w = (p, w1)"
    and "p \<noteq> nullptr"
    and "objc_getClass w ''NSScreen'' \<noteq> nullptr"
    and "mainScreen w \<noteq> nullptr"
  shows "result_of (MetalLayer rs w) = p \<and>
         contentsScale (state_of (MetalLayer rs w)) p = backingScaleFactor w (mainScreen w) \<and>
         last (trace_of (MetalLayer rs w)) = objc_msgSend p ''setContentsScale:'' \<and>
         (backingScaleFactor w (mainScreen w) = 2 \<longrightarrow>
            contentsScale (state_of (MetalLayer rs w)) p = 2)"
  using assms
  by (simp add: MetalLayer_success[OF assms(1-3)] msgSend_setContentsScale_def
        msgSend_backingScaleFactor_def msgSend_mainScreen_def)

theorem MetalLayer_contents_scale_witness:
  "objc_getClass example_runtime ''CAMetalLayer'' \<noteq> nullptr \<and>
   msgSend_layer (objc_getClass example_runtime ''CAMetalLayer'') example_runtime =
     (20, example_runtime\<lparr>fresh_layers := []\<rparr>) \<and>
   backingScaleFactor example_runtime (mainScreen example_runtime) = 2 \<and>
   contentsScale example_runtime 20 = 1 \<and>
   result_of (MetalLayer 50 example_runtime) = 20 \<and>
   contentsScale (state_of (MetalLayer 50 example_runtime)) 20 = 2"
  using MetalLayer_contents_scale
          [of example_runtime 20 "example_runtime\<lparr>fresh_layers := []\<rparr>" 50]
  by (simp add: example_runtime_def objc_getClass_def msgSend_layer_def)

section \<open>Window types without a block\<close>

text \<open>
  Claim C3. When the window's type has no block compiled for the target (the
  \<^verbatim>\<open>Unsupported\<close> type has none on any target), the raw handle is still null at
  line 136 and the object state is untouched; \<^verbatim>\<open>CreateSurface\<close> throws
  \<^verbatim>\<open>VK_ERROR_INITIALIZATION_FAILED\<close> after logging that presentation is not supported,
  having resolved no entry point and made no native surface-creation call.
\<close>

theorem CreateSurface_no_block_fails:
  assumes "\<not> compiled t (type window_info)"
  shows "platform_blocks t instance window_info w = (Inr nullptr, [], w) \<and>
         CreateSurface t instance window_info w =
           (Inl SurfaceInitializationFailed,
            [LOG_ERROR ''Presentation not supported on this platform''], w) \<and>
         native_calls (trace_of (CreateSurface t instance window_info w)) = [] \<and>
         resolved (trace_of (CreateSurface t instance window_info w)) = []"
  using assms
  by (simp add: CreateSurface_def bind_def platform_blocks_not_compiled)

theorem CreateSurface_no_block_fails_witness:
  "\<not> compiled TargetApple (type (example_window X11)) \<and>
   \<not> compiled TargetOther (type (example_window Unsupported)) \<and>
   CreateSurface TargetApple example_instance (example_window X11) example_runtime =
     (Inl SurfaceInitializationFailed,
      [LOG_ERROR ''Presentation not supported on this platform''], example_runtime) \<and>
   CreateSurface TargetOther example_instance (example_window Unsupported) example_runtime =
     (Inl SurfaceInitializationFailed,
      [LOG_ERROR ''Presentation not supported on this platform''], example_runtime)"
  using CreateSurface_no_block_fails
          [of TargetApple "example_window X11" example_instance example_runtime]
        CreateSurface_no_block_fails
          [of TargetOther "example_window Unsupported" example_instance example_runtime]
  by (simp add: compiled_def example_window_def def_APPLE_def def_WIN32_def)

text \<open>
  Claim C8. With such a window, a first call fails and leaves the object state as it
  found it, and a second call on the state the first one left returns exactly what the
  first returned: the same exception, the same trace, the same state.
\<close>

theorem CreateSurface_no_block_twice:
  assumes "\<not> compiled t (type window_info)"
  shows "result_of (CreateSurface t instance window_info w) = Inl SurfaceInitializationFailed \<and>
         state_of (CreateSurface t instance window_info w) = w \<and>
         CreateSurface t instance window_info
             (state_of (CreateSurface t instance window_info w)) =
           CreateSurface t instance window_info w"
  using assms
  by (simp add: CreateSurface_def bind_def platform_blocks_not_compiled)

theorem CreateSurface_no_block_twice_witness:
  "\<not> compiled TargetWin32 (type (example_window Wayland)) \<and>
   result_of (CreateSurface TargetWin32 example_instance (example_window Wayland)
                example_runtime) = Inl SurfaceInitializationFailed \<and>
   CreateSurface TargetWin32 example_instance (example_window Wayland)
       (state_of (CreateSurface TargetWin32 example_instance (example_window Wayland)
                    example_runtime)) =
     CreateSurface TargetWin32 example_instance (example_window Wayland) example_runtime"
  using CreateSurface_no_block_twice
          [of TargetWin32 "example_window Wayland" example_instance example_runtime]
  by (simp add: compiled_def example_window_def def_APPLE_def def_WIN32_def)

section \<open>Window types with a block\<close>

text \<open>
  Claim C6. When the entry point of the window's type resolves, the one native call
  receives the create-info as the block built it. Win32: the tag, a null \<^verbatim>\<open>pNext\<close>,
  flags 0, a null \<^verbatim>\<open>hinstance\<close>, then the window handle. Xlib: the tag, null, 0, the
  display connection, then the window identifier. Wayland: the tag, null, 0, the
  display connection, then the surface. Metal: the tag, null, 0, then the layer that
  \<^verbatim>\<open>MetalLayer\<close> returned for the view.
\<close>

theorem create_info_fields:
  assumes "Dispatch instance (handle instance) (entry_point (type window_info)) = Some pfn"
  shows "(def_WIN32 t \<and> type window_info = Windows \<longrightarrow>
            native_calls (trace_of (CreateSurface t instance window_info w)) =
              [(''vkCreateWin32SurfaceKHR'', handle instance,
                VkWin32SurfaceCreateInfoKHR VK_STRUCTURE_TYPE_WIN32_SURFACE_CREATE_INFO_KHR
                  nullptr 0 nullptr (render_surface window_info))]) \<and>
         (\<not> def_WIN32 t \<and> \<not> def_APPLE t \<and> type window_info = X11 \<longrightarrow>
            native_calls (trace_of (CreateSurface t instance window_info w)) =
              [(''vkCreateXlibSurfaceKHR'', handle instance,
                VkXlibSurfaceCreateInfoKHR VK_STRUCTURE_TYPE_XLIB_SURFACE_CREATE_INFO_KHR
                  nullptr 0 (display_connection window_info) (render_surface window_info))]) \<and>
         (\<not> def_WIN32 t \<and> \<not> def_APPLE t \<and> type window_info = Wayland \<longrightarrow>
            native_calls (trace_of (CreateSurface t instance window_info w)) =
              [(''vkCreateWaylandSurfaceKHR'', handle instance,
                VkWaylandSurfaceCreateInfoKHR VK_STRUCTURE_TYPE_WAYLAND_SURFACE_CREATE_INFO_KHR
                  nullptr 0 (display_connection window_info) (render_surface window_info))]) \<and>
         (def_APPLE t \<and> type window_info = MacOs \<longrightarrow>
            native_calls (trace_of (CreateSurface t instance window_info w)) =
              [(''vkCreateMetalSurfaceEXT'', handle instance,
                VkMetalSurfaceCreateInfoEXT VK_STRUCTURE_TYPE_METAL_SURFACE_CREATE_INFO_EXT
                  nullptr 0 (result_of (MetalLayer (render_surface window_info) w)))])"
  using assms
  by (auto simp: CreateSurface_proj platform_blocks_Windows platform_blocks_X11
        platform_blocks_Wayland platform_blocks_MacOs_proj native_calls_append
        entry_point_def resolve_and_create_native_call)

theorem create_info_fields_witness:
  "native_calls (trace_of (CreateSurface TargetWin32 example_instance (example_window Windows)
                             example_runtime)) =
     [(''vkCreateWin32SurfaceKHR'', 1,
       VkWin32SurfaceCreateInfoKHR VK_STRUCTURE_TYPE_WIN32_SURFACE_CREATE_INFO_KHR
         nullptr 0 nullptr 50)] \<and>
   native_calls (trace_of (CreateSurface TargetOther example_instance (example_window X11)
                             example_runtime)) =
     [(''vkCreateXlibSurfaceKHR'', 1,
       VkXlibSurfaceCreateInfoKHR VK_STRUCTURE_TYPE_XLIB_SURFACE_CREATE_INFO_KHR
         nullptr 0 40 50)] \<and>
   native_calls (trace_of (CreateSurface TargetOther example_instance (example_window Wayland)
                             example_runtime)) =
     [(''vkCreateWaylandSurfaceKHR'', 1,
       VkWaylandSurfaceCreateInfoKHR VK_STRUCTURE_TYPE_WAYLAND_SURFACE_CREATE_INFO_KHR
         nullptr 0 40 50)] \<and>
   native_calls (trace_of (CreateSurface TargetApple example_instance (example_window MacOs)
                             example_runtime)) =
     [(''vkCreateMetalSurfaceEXT'', 1,
       VkMetalSurfaceCreateInfoEXT VK_STRUCTURE_TYPE_METAL_SURFACE_CREATE_INFO_EXT
         nullptr 0 20)]"
  using create_info_fields
          [of example_instance "example_window Windows" "\<lambda>h ci. (VK_SUCCESS, 7)"
              TargetWin32 example_runtime]
        create_info_fields
          [of example_instance "example_window X11" "\<lambda>h ci. (VK_SUCCESS, 7)"
              TargetOther example_runtime]
        create_info_fields
          [of example_instance "example_window Wayland" "\<lambda>h ci. (VK_SUCCESS, 7)"
              TargetOther example_runtime]
        create_info_fields
          [of example_instance "example_window MacOs" "\<lambda>h ci. (VK_SUCCESS, 7)"
              TargetApple example_runtime]
  by (simp add: example_instance_def example_window_def def_WIN32_def def_APPLE_def
        MetalLayer_def Let_def objc_getClass_def msgSend_layer_def example_runtime_def)

text \<open>
  Claim C4. For a window type that has a block on the target, exactly one entry
  point is resolved, the one of that type. If it resolves to null, \<^verbatim>\<open>CreateSurface\<close>
  throws \<^verbatim>\<open>VK_ERROR_INITIALIZATION_FAILED\<close> and no native call is made. If it resolves,
  exactly one native call is made, through it, and if that call does not return
  \<^verbatim>\<open>VK_SUCCESS\<close> then \<^verbatim>\<open>CreateSurface\<close> throws \<^verbatim>\<open>VK_ERROR_INITIALIZATION_FAILED\<close>:
  there is no second attempt and no other family's entry point is tried.
\<close>

theorem CreateSurface_entry_point_failure:
  assumes "compiled t (type window_info)"
  shows "resolved (trace_of (CreateSurface t instance window_info w)) =
           [entry_point (type window_info)] \<and>
         (Dispatch instance (handle instance) (entry_point (type window_info)) = None \<longrightarrow>
            result_of (CreateSurface t instance window_info w) =
              Inl SurfaceInitializationFailed \<and>
            native_calls (trace_of (CreateSurface t instance window_info w)) = []) \<and>
         (\<forall>pfn. Dispatch instance (handle instance) (entry_point (type window_info)) = Some pfn \<longrightarrow>
            (\<exists>ci. native_calls (trace_of (CreateSurface t instance window_info w)) =
                     [(entry_point (type window_info), handle instance, ci)] \<and>
                   (fst (pfn (handle instance) ci) \<noteq> VK_SUCCESS \<longrightarrow>
                      result_of (CreateSurface t instance window_info w) =
                        Inl SurfaceInitializationFailed)))"
proof (intro conjI allI impI)
  show "resolved (trace_of (CreateSurface t instance window_info w)) =
           [entry_point (type window_info)]"
    using assms by (simp add: CreateSurface_proj platform_blocks_resolved)
next
  assume "Dispatch instance (handle instance) (entry_point (type window_info)) = None"
  from platform_blocks_None[OF assms this, of w]
  show "result_of (CreateSurface t instance window_info w) = Inl SurfaceInitializationFailed"
    and "native_calls (trace_of (CreateSurface t instance window_info w)) = []"
    by (simp_all add: CreateSurface_proj)
next
  fix pfn
  assume "Dispatch instance (handle instance) (entry_point (type window_info)) = Some pfn"
  from platform_blocks_Some[OF assms this, of w]
  obtain ci where
    nc: "native_calls (trace_of (platform_blocks t instance window_info w)) =
              [(entry_point (type window_info), handle instance, ci)]"
    and r: "result_of (platform_blocks t instance window_info w) =
              (if fst (pfn (handle instance) ci) \<noteq> VK_SUCCESS
               then Inl SurfaceInitializationFailed
               else Inr (snd (pfn (handle instance) ci)))"
    by blast
  show "\<exists>ci. native_calls (trace_of (CreateSurface t instance window_info w)) =
                     [(entry_point (type window_info), handle instance, ci)] \<and>
                   (fst (pfn (handle instance) ci) \<noteq> VK_SUCCESS \<longrightarrow>
                      result_of (CreateSurface t instance window_info w) =
                        Inl SurfaceInitializationFailed)"
    using nc r by (intro exI[of _ ci]) (simp add: CreateSurface_proj)
qed

theorem CreateSurface_entry_point_failure_witness:
  "compiled TargetOther (type (example_window X11)) \<and>
   Dispatch bare_instance (handle bare_instance) (entry_point (type (example_window X11))) = None \<and>
   result_of (CreateSurface TargetOther bare_instance (example_window X11) example_runtime) =
     Inl SurfaceInitializationFailed \<and>
   native_calls (trace_of (CreateSurface TargetOther bare_instance (example_window X11)
                             example_runtime)) = [] \<and>
   resolved (trace_of (CreateSurface TargetOther bare_instance (example_window X11)
                         example_runtime)) = [''vkCreateXlibSurfaceKHR''] \<and>
   compiled TargetWin32 (type (example_window Windows)) \<and>
   fst (the (Dispatch rejecting_instance (handle rejecting_instance)
               (entry_point (type (example_window Windows))))
          (handle rejecting_instance)
          (VkWin32SurfaceCreateInfoKHR VK_STRUCTURE_TYPE_WIN32_SURFACE_CREATE_INFO_KHR
             nullptr 0 nullptr 50)) \<noteq> VK_SUCCESS \<and>
   native_calls (trace_of (CreateSurface TargetWin32 rejecting_instance (example_window Windows)
                             example_runtime)) =
     [(''vkCreateWin32SurfaceKHR'', 1,
       VkWin32SurfaceCreateInfoKHR VK_STRUCTURE_TYPE_WIN32_SURFACE_CREATE_INFO_KHR
         nullptr 0 nullptr 50)] \<and>
   result_of (CreateSurface TargetWin32 rejecting_instance (example_window Windows)
                example_runtime) = Inl SurfaceInitializationFailed"
  using CreateSurface_entry_point_failure
          [of TargetOther "example_window X11" bare_instance example_runtime]
        CreateSurface_entry_point_failure
          [of TargetWin32 "example_window Windows" rejecting_instance example_runtime]
  by (simp add: compiled_def example_window_def def_APPLE_def def_WIN32_def entry_point_def
        bare_instance_def rejecting_instance_def VK_SUCCESS_def
        VK_ERROR_INITIALIZATION_FAILED_def CreateSurface_def platform_blocks_def bind_def
        Win32_block_def Metal_block_def Xlib_block_def Wayland_block_def
        resolve_and_create_def)






section \<open>What the caller observes\<close>

text \<open>
  Whatever the instance, the window and the object state, \<^verbatim>\<open>CreateSurface\<close> either
  throws \<^verbatim>\<open>VK_ERROR_INITIALIZATION_FAILED\<close> or returns a surface whose raw handle is not
  null, bound to the instance and its table.
\<close>

lemma CreateSurface_result_cases:
  "(case result_of (CreateSurface t instance window_info w) of
      Inl e \<Rightarrow> e = SurfaceInitializationFailed
    | Inr s \<Rightarrow> surface_handle s \<noteq> nullptr \<and> surface_owner s = handle instance \<and>
               surface_dld s = Dispatch instance)"
proof (cases "compiled t (type window_info)")
  case False
  then show ?thesis by (simp add: CreateSurface_proj platform_blocks_not_compiled)
next
  case True
  show ?thesis
  proof (cases "Dispatch instance (handle instance) (entry_point (type window_info))")
    case None
    from platform_blocks_None[OF True None, of w] show ?thesis
      by (simp add: CreateSurface_proj)
  next
    case (Some pfn)
    from platform_blocks_Some[OF True Some, of w] show ?thesis
      by (auto simp: CreateSurface_proj)
  qed
qed

text \<open>
  Claim C1, evaluated where it fails. On the Apple target, with a view whose layer
  cannot be instantiated and an instance that resolves \<^verbatim>\<open>vkCreateMetalSurfaceEXT\<close>,
  \<^verbatim>\<open>MetalLayer\<close> logs the failure and returns null, and lines 96 to 101 go on without
  testing it: the entry point is resolved and called with a null \<^verbatim>\<open>pLayer\<close>, and when
  that call succeeds \<^verbatim>\<open>CreateSurface\<close> returns the surface.
\<close>

theorem null_layer_reaches_native_call:
  "MetalLayer (render_surface (example_window MacOs)) no_layer_runtime =
     (nullptr,
      [objc_msgSend 10 ''layer'', LOG_ERROR ''Failed to create Metal layer.''],
      no_layer_runtime\<lparr>fresh_layers := []\<rparr>) \<and>
   CreateSurface TargetApple example_instance (example_window MacOs) no_layer_runtime =
     (Inr \<lparr>surface_handle = 7, surface_owner = 1, surface_dld = Dispatch example_instance\<rparr>,
      [objc_msgSend 10 ''layer'', LOG_ERROR ''Failed to create Metal layer.'',
       vkGetInstanceProcAddr 1 ''vkCreateMetalSurfaceEXT'',
       NativeCall ''vkCreateMetalSurfaceEXT'' 1
         (VkMetalSurfaceCreateInfoEXT VK_STRUCTURE_TYPE_METAL_SURFACE_CREATE_INFO_EXT
            nullptr 0 nullptr)],
      no_layer_runtime\<lparr>fresh_layers := []\<rparr>)"
  by (simp add: CreateSurface_def platform_blocks_def bind_def Win32_block_def Metal_block_def
        Xlib_block_def Wayland_block_def resolve_and_create_def def_WIN32_def def_APPLE_def
        example_instance_def example_window_def VK_SUCCESS_def MetalLayer_def Let_def
        objc_getClass_def msgSend_layer_def no_layer_runtime_def example_runtime_def)

text \<open>
  Claim C2, evaluated where it fails. On the Apple target, when the class
  \<^verbatim>\<open>CAMetalLayer\<close> is not registered, the layer failure is logged but does not become
  \<^verbatim>\<open>VK_ERROR_INITIALIZATION_FAILED\<close>: the native call is made with a null \<^verbatim>\<open>pLayer\<close> and
  its success is returned to the caller as a surface.
\<close>

theorem layer_failure_not_collapsed:
  "CreateSurface TargetApple example_instance (example_window MacOs) no_class_runtime =
     (Inr \<lparr>surface_handle = 7, surface_owner = 1, surface_dld = Dispatch example_instance\<rparr>,
      [LOG_ERROR ''Failed to get CAMetalLayer class.'',
       vkGetInstanceProcAddr 1 ''vkCreateMetalSurfaceEXT'',
       NativeCall ''vkCreateMetalSurfaceEXT'' 1
         (VkMetalSurfaceCreateInfoEXT VK_STRUCTURE_TYPE_METAL_SURFACE_CREATE_INFO_EXT
            nullptr 0 nullptr)],
      no_class_runtime)"
  by (simp add: CreateSurface_def platform_blocks_def bind_def Win32_block_def Metal_block_def
        Xlib_block_def Wayland_block_def resolve_and_create_def def_WIN32_def def_APPLE_def
        example_instance_def example_window_def VK_SUCCESS_def MetalLayer_def Let_def
        objc_getClass_def msgSend_layer_def no_class_runtime_def example_runtime_def)

end
